theory Spec2Isabelle
  imports Complex_Main
begin

section \<open>The wave-shoaling model of \<open>WaveSimulation.tsx\<close>\<close>

text \<open>
  The component \<open>WaveSimulation\<close> computes, inside one \<open>useEffect\<close> body, a seabed
  profile, a propagation schedule and a height model from its props \<open>slope\<close>,
  \<open>intensity\<close>, \<open>depth\<close> and from the component state \<open>visualGain\<close>. The TypeScript
  type of all of them is \<open>number\<close>; the model below reads a \<open>number\<close> as a \<open>real\<close>,
  so every statement is about the exact arithmetic the code approximates in IEEE
  doubles. \<open>Math.sqrt\<close> is \<open>sqrt\<close> and \<open>Math.pow\<close> is \<open>powr\<close>; the two agree
  on the non-negative bases the model raises to a power (\<open>Math.pow(0, p) = 0\<close> for
  a positive \<open>p\<close>, as \<open>0 powr p = 0\<close>).
\<close>

subsection \<open>Props\<close>

record props =
  slope :: real
  intensity :: real
  depth :: real
  recommendedHeight :: "real option"

subsection \<open>Canvas constants and the seabed geometry\<close>

definition width :: real where
  "width = 600"

definition height :: real where
  "height = 300"

definition seaLevel :: real where
  "seaLevel = 200"

definition shoreX :: real where
  "shoreX = width - 50"

definition maxRun :: real where
  "maxRun = 500"

definition minRun :: real where
  "minRun = 30"

definition run :: "real \<Rightarrow> real" where
  "run sl = maxRun - ((sl - 1) / 9) * (maxRun - minRun)"

definition shelfKneeX :: "real \<Rightarrow> real" where
  "shelfKneeX sl = shoreX - run sl"

definition maxVisualDepthPx :: real where
  "maxVisualDepthPx = 95"

definition minVisualDepthPx :: real where
  "minVisualDepthPx = 30"

text \<open>
  \<open>d3.scaleLinear().domain([d0, d1]).range([r0, r1]).clamp(true)\<close> is a function of
  the d3 library: for an increasing domain it clamps its argument to the domain,
  normalises it to \<open>[0, 1]\<close> and interpolates the range with
  \<open>r0 * (1 - u) + r1 * u\<close>.
\<close>

definition scaleLinearClamp :: "real \<Rightarrow> real \<Rightarrow> real \<Rightarrow> real \<Rightarrow> real \<Rightarrow> real" where
  "scaleLinearClamp d0 d1 r0 r1 x =
     (let c = max d0 (min d1 x);
          u = (c - d0) / (d1 - d0)
      in r0 * (1 - u) + r1 * u)"

definition depthScale :: "real \<Rightarrow> real" where
  "depthScale d = scaleLinearClamp 10 80 minVisualDepthPx maxVisualDepthPx d"

definition deepDepthY :: "real \<Rightarrow> real" where
  "deepDepthY d = seaLevel + depthScale d"

definition shoreDepthY :: real where
  "shoreDepthY = seaLevel"

definition tension :: "real \<Rightarrow> real" where
  "tension sl = 0.2 + ((sl - 1) / 9) * 0.7"

definition cpX :: "real \<Rightarrow> real" where
  "cpX sl = shelfKneeX sl + run sl * tension sl"

definition cpY :: "real \<Rightarrow> real" where
  "cpY d = deepDepthY d"

subsection \<open>Propagation schedule\<close>

definition waveAmp :: "real \<Rightarrow> real \<Rightarrow> real" where
  "waveAmp i vg = i * 3 * vg"

definition deepDist :: "real \<Rightarrow> real" where
  "deepDist sl = max 0 (shelfKneeX sl)"

definition slopeDist :: "real \<Rightarrow> real" where
  "slopeDist sl = shoreX - deepDist sl"

definition baseSpeed :: real where
  "baseSpeed = 0.6"

definition speedFactor :: "real \<Rightarrow> real" where
  "speedFactor d = sqrt (d / 40)"

definition speedDeep :: "real \<Rightarrow> real" where
  "speedDeep d = baseSpeed * speedFactor d"

definition speedSlopeAvg :: real where
  "speedSlopeAvg = 0.2"

definition timeDeep :: "real \<Rightarrow> real \<Rightarrow> real" where
  "timeDeep sl d = deepDist sl / speedDeep d"

definition timeSlope :: "real \<Rightarrow> real" where
  "timeSlope sl = slopeDist sl / speedSlopeAvg"

definition totalTimeUnits :: "real \<Rightarrow> real \<Rightarrow> real" where
  "totalTimeUnits sl d = timeDeep sl d + timeSlope sl"

subsection \<open>\<open>calculateWavePosition\<close>\<close>

text \<open>
  The helper is one closure in the source. It is split here at the point where
  \<open>currentX\<close> is final: \<open>positionAt\<close> is the part up to and including the clamp
  at the shore, \<open>currentDepthRatio\<close>, \<open>shoalingFactor\<close> and \<open>heightAt\<close> are the
  part after it, as functions of \<open>currentX\<close>.
\<close>

text \<open>
  The value of \<open>currentX\<close> before the clamp, as a function of the virtual time.
\<close>

definition rawX :: "real \<Rightarrow> real \<Rightarrow> real \<Rightarrow> real" where
  "rawX sl d vt =
     (if vt < timeDeep sl d then vt * speedDeep d
      else deepDist sl + (vt - timeDeep sl d) * speedSlopeAvg)"

definition positionAt :: "real \<Rightarrow> real \<Rightarrow> real \<Rightarrow> real" where
  "positionAt sl d t =
     (let currentVirtualTime = t * totalTimeUnits sl d;
          currentX =
            (if currentVirtualTime < timeDeep sl d
             then currentVirtualTime * speedDeep d
             else deepDist sl + (currentVirtualTime - timeDeep sl d) * speedSlopeAvg)
      in if currentX > shoreX then shoreX else currentX)"

definition currentDepthRatio :: "real \<Rightarrow> real \<Rightarrow> real" where
  "currentDepthRatio sl x =
     (if x > shelfKneeX sl
      then (let progressOnSlope = (x - shelfKneeX sl) / (shoreX - shelfKneeX sl);
                power = 1 + tension sl * 1.5;
                adjustedProgress = progressOnSlope powr power;
                r = 1 - adjustedProgress
            in if r < 0.1 then 0.1 else r)
      else 1)"

definition shoalingFactor :: "real \<Rightarrow> real \<Rightarrow> real" where
  "shoalingFactor sl x =
     (let s = (1 / currentDepthRatio sl x) powr 0.25
      in if sl > 6 then s * (1 - (sl - 6) * 0.15) else s)"

definition heightAt :: "real \<Rightarrow> real \<Rightarrow> real \<Rightarrow> real \<Rightarrow> real" where
  "heightAt sl i vg x = waveAmp i vg * shoalingFactor sl x"

definition calculateWavePosition :: "props \<Rightarrow> real \<Rightarrow> real \<Rightarrow> real \<times> real" where
  "calculateWavePosition p vg t =
     (let currentX = positionAt (slope p) (depth p) t;
          currentHeight = heightAt (slope p) (intensity p) vg currentX
      in (currentX, currentHeight))"

subsection \<open>Seawall overlay\<close>

text \<open>
  \<open>recommendedHeight && recommendedHeight > 0\<close>: an absent prop and a height that
  is not positive both take the default.
\<close>

definition seawallPixelHeight :: "real option \<Rightarrow> real" where
  "seawallPixelHeight rh =
     (case rh of
        None \<Rightarrow> 30
      | Some h \<Rightarrow> if h > 0 then h * 5 else 30)"

subsection \<open>The seabed path\<close>

text \<open>
  The seabed is drawn with \<open>d3.path()\<close>, which records canvas path commands. The
  model keeps the commands as data, in the order the source issues them.
\<close>

type_synonym point = "real \<times> real"

datatype path_cmd =
    MoveTo real real
  | LineTo real real
  | QuadraticCurveTo real real real real
  | ClosePath

definition seabedPath :: "real \<Rightarrow> real \<Rightarrow> path_cmd list" where
  "seabedPath sl d =
     [MoveTo 0 (deepDepthY d),
      LineTo (shelfKneeX sl) (deepDepthY d),
      QuadraticCurveTo (cpX sl) (cpY d) shoreX shoreDepthY,
      LineTo (shoreX + 50) (shoreDepthY - 20),
      LineTo width (shoreDepthY - 20),
      LineTo width height,
      LineTo 0 height,
      ClosePath]"

text \<open>
  The geometry of a command, as canvas and SVG define it: \<open>lineTo\<close> draws the
  straight segment from the current point, \<open>quadraticCurveTo\<close> the quadratic
  Bezier curve from the current point through the control point, \<open>closePath\<close>
  the segment back to the start of the subpath. \<open>segmentAt st p c s\<close> is the
  point at parameter \<open>s\<close> of \<open>[0, 1]\<close> of the segment that \<open>c\<close> draws from
  the current point \<open>p\<close>, with \<open>st\<close> the start of the subpath.
\<close>

fun segmentAt :: "point \<Rightarrow> point \<Rightarrow> path_cmd \<Rightarrow> real \<Rightarrow> point" where
  "segmentAt st p (MoveTo x y) s = (x, y)"
| "segmentAt st p (LineTo x y) s =
     ((1 - s) * fst p + s * x, (1 - s) * snd p + s * y)"
| "segmentAt st p (QuadraticCurveTo cx cy x y) s =
     ((1 - s)\<^sup>2 * fst p + 2 * (1 - s) * s * cx + s\<^sup>2 * x,
      (1 - s)\<^sup>2 * snd p + 2 * (1 - s) * s * cy + s\<^sup>2 * y)"
| "segmentAt st p ClosePath s =
     ((1 - s) * fst p + s * fst st, (1 - s) * snd p + s * snd st)"

text \<open>
  \<open>pathAt\<close> walks a command list: \<open>moveTo\<close> lifts the pen and starts a subpath,
  every other command takes one unit of the parameter \<open>u\<close>.
\<close>

fun pathAt :: "point \<Rightarrow> point \<Rightarrow> path_cmd list \<Rightarrow> real \<Rightarrow> point" where
  "pathAt st p [] u = p"
| "pathAt st p (MoveTo x y # cs) u = pathAt (x, y) (x, y) cs u"
| "pathAt st p (c # cs) u =
     (if u \<le> 1 then segmentAt st p c u
      else pathAt st (segmentAt st p c 1) cs (u - 1))"

text \<open>
  The seabed profile as a curve: \<open>u\<close> in \<open>[0, 1]\<close> is the deep ocean floor,
  \<open>[1, 2]\<close> the rise from the shelf knee to the shore, \<open>[2, 3]\<close> the ramp onto
  the land.
\<close>

definition seabedAt :: "real \<Rightarrow> real \<Rightarrow> real \<Rightarrow> point" where
  "seabedAt sl d u = pathAt (0, 0) (0, 0) (seabedPath sl d) u"

text \<open>The commands that draw a segment from the current point.\<close>

fun drawn :: "path_cmd \<Rightarrow> bool" where
  "drawn (MoveTo x y) = False"
| "drawn c = True"

text \<open>
  The share of the run covered at parameter \<open>s\<close> of the quadratic curve whose
  control point lies at the fraction \<open>T\<close> of the run.
\<close>

definition bend :: "real \<Rightarrow> real \<Rightarrow> real" where
  "bend T s = 2 * (1 - s) * s * T + s\<^sup>2"

subsection \<open>The effect and its cleanup\<close>


















section \<open>Basic facts\<close>

lemma run_eq: "run sl = (4970 - 470 * sl) / 9"
  by (simp add: run_def maxRun_def minRun_def field_simps)

lemma shelfKneeX_eq: "shelfKneeX sl = (470 * sl - 20) / 9"
  by (simp add: shelfKneeX_def shoreX_def width_def run_eq field_simps)

lemma shoreX_eq: "shoreX = 550"
  by (simp add: shoreX_def width_def)

section \<open>Shelf knee against slope\<close>

text \<open>
  C1, as stated: the shelf knee moves to smaller \<open>x\<close> when the slope grows. The
  code does the opposite: the gentlest slope has its knee at 50 and the steepest
  at 520.
\<close>

theorem shelfKneeX_not_decreasing:
  "shelfKneeX 1 = 50 \<and> shelfKneeX 10 = 520 \<and> \<not> shelfKneeX 10 < shelfKneeX 1"
  by (simp add: shelfKneeX_eq)

text \<open>
  C1, amended: for slopes in \<open>[1, 10]\<close> the run strictly decreases and the shelf
  knee \<open>shoreX - run\<close> strictly increases as the slope increases.
\<close>

theorem shelfKneeX_strictly_increasing:
  assumes "1 \<le> s1" and "s1 < s2" and "s2 \<le> 10"
  shows "run s2 < run s1 \<and> shelfKneeX s1 < shelfKneeX s2"
  using assms by (simp add: shelfKneeX_eq run_eq)

theorem shelfKneeX_strictly_increasing_witness:
  "(1::real) \<le> 1 \<and> (1::real) < 10 \<and> (10::real) \<le> 10
   \<and> run 10 < run 1 \<and> shelfKneeX 1 < shelfKneeX 10"
  using shelfKneeX_strictly_increasing [of 1 10] by simp

section \<open>Deep-water speed against depth\<close>

text \<open>
  C7: the deep-water speed at depth 10 over the one at depth 80 is \<open>sqrt (1/8)\<close>,
  which is \<open>sqrt (10/40) / sqrt (80/40)\<close>; its square is exactly \<open>1/8\<close> and its
  value lies between 0.353 and 0.354. The slope does not enter \<open>speedDeep\<close>.
\<close>

theorem speedDeep_ratio:
  "speedDeep 10 / speedDeep 80 = sqrt (10 / 40) / sqrt (80 / 40)
   \<and> speedDeep 10 / speedDeep 80 = sqrt (1 / 8)
   \<and> (speedDeep 10 / speedDeep 80)\<^sup>2 = 1 / 8
   \<and> 0.353 < speedDeep 10 / speedDeep 80
   \<and> speedDeep 10 / speedDeep 80 < 0.354"
proof -
  have r: "speedDeep 10 / speedDeep 80 = sqrt (10 / 40) / sqrt (80 / 40)"
    by (simp add: speedDeep_def speedFactor_def baseSpeed_def)
  have e: "sqrt (10 / 40) / sqrt (80 / 40) = sqrt (1 / 8)"
    by (simp add: real_sqrt_divide [symmetric])
  have sq: "(sqrt (1 / 8))\<^sup>2 = 1 / 8"
    by simp
  have lo: "0.353 < sqrt (1 / 8)"
    by (rule real_less_rsqrt) (simp add: power2_eq_square)
  have hi: "sqrt (1 / 8) < 0.354"
    by (rule real_less_lsqrt) (simp_all add: power2_eq_square)
  show ?thesis
    using r e sq lo hi by simp
qed


section \<open>Depth-to-pixel mapping\<close>

lemma depthScale_eq: "depthScale d = 30 + (max 10 (min 80 d) - 10) * 65 / 70"
  by (simp add: depthScale_def scaleLinearClamp_def minVisualDepthPx_def maxVisualDepthPx_def Let_def field_simps)

text \<open>
  C9: outside \<open>[10, 80]\<close> the depth-to-pixel mapping saturates: a depth below 10
  maps where depth 10 maps, to 30 px, a depth above 80 maps where depth 80 maps,
  to 95 px, and \<open>deepDepthY\<close> stays within \<open>[seaLevel + 30, seaLevel + 95]\<close>.
\<close>

theorem depthScale_saturates:
  assumes "d < 10 \<or> 80 < d"
  shows "(d < 10 \<longrightarrow> depthScale d = 30 \<and> depthScale d = depthScale 10)
       \<and> (80 < d \<longrightarrow> depthScale d = 95 \<and> depthScale d = depthScale 80)
       \<and> seaLevel + 30 \<le> deepDepthY d \<and> deepDepthY d \<le> seaLevel + 95"
  using assms by (auto simp add: depthScale_eq deepDepthY_def max_def min_def)

theorem depthScale_saturates_witness:
  "((5::real) < 10 \<or> (80::real) < 5) \<and> ((100::real) < 10 \<or> (80::real) < 100)
   \<and> depthScale 5 = 30 \<and> depthScale 5 = depthScale 10
   \<and> depthScale 100 = 95 \<and> depthScale 100 = depthScale 80
   \<and> seaLevel + 30 \<le> deepDepthY 5 \<and> deepDepthY 100 \<le> seaLevel + 95"
  using depthScale_saturates [of 5] depthScale_saturates [of 100] by simp

lemma deepDepthY_bounds: "seaLevel + 30 \<le> deepDepthY d \<and> deepDepthY d \<le> seaLevel + 95"
 by (auto simp add: depthScale_eq deepDepthY_def max_def min_def)

section \<open>The depth ratio\<close>

text \<open>
  C5: for a slope in \<open>[1, 10]\<close> and an \<open>x\<close> between the shelf knee and the
  shore, the depth ratio is at least 0.1 (and at most 1), so the quotient
  \<open>1 / currentDepthRatio\<close> that feeds the Green's-law factor is at most 10.
\<close>

theorem currentDepthRatio_floor:
  assumes "1 \<le> sl" and "sl \<le> 10" and "shelfKneeX sl \<le> x" and "x \<le> shoreX"
  shows "0.1 \<le> currentDepthRatio sl x \<and> currentDepthRatio sl x \<le> 1
       \<and> 1 / currentDepthRatio sl x \<le> 10"
proof -
  have lo: "0.1 \<le> currentDepthRatio sl x"
    by (simp add: currentDepthRatio_def Let_def)
  have hi: "currentDepthRatio sl x \<le> 1"
    by (simp add: currentDepthRatio_def Let_def)
  from lo have "1 / currentDepthRatio sl x \<le> 10"
    by (simp add: field_simps)
  with lo hi show ?thesis by simp
qed

theorem currentDepthRatio_floor_witness:
  "(1::real) \<le> 1 \<and> (1::real) \<le> 10 \<and> shelfKneeX 1 \<le> 550 \<and> 550 \<le> shoreX
   \<and> 0.1 \<le> currentDepthRatio 1 550 \<and> currentDepthRatio 1 550 \<le> 1
   \<and> 1 / currentDepthRatio 1 550 \<le> 10 \<and> currentDepthRatio 1 550 = 0.1"
  using currentDepthRatio_floor [of 1 550]
  by (simp add: shelfKneeX_eq shoreX_eq currentDepthRatio_def)

section \<open>\<open>recommendedHeight\<close> and the physics\<close>

text \<open>
  C8: two runs whose props agree on \<open>slope\<close>, \<open>intensity\<close> and \<open>depth\<close>, with
  the same \<open>visualGain\<close> and the same sample time, compute the same \<open>currentX\<close>
  and the same \<open>currentHeight\<close>, whatever their \<open>recommendedHeight\<close>.
\<close>

theorem recommendedHeight_noninterference:
  assumes "slope p = slope q" and "intensity p = intensity q" and "depth p = depth q"
  shows "calculateWavePosition p vg t = calculateWavePosition q vg t"
  using assms by (simp add: calculateWavePosition_def)

theorem recommendedHeight_noninterference_witness:
  "slope \<lparr>slope = 7, intensity = 5, depth = 40, recommendedHeight = None\<rparr>
     = slope \<lparr>slope = 7, intensity = 5, depth = 40, recommendedHeight = Some 8\<rparr>
   \<and> calculateWavePosition
         \<lparr>slope = 7, intensity = 5, depth = 40, recommendedHeight = None\<rparr> 1 (1/2)
       = calculateWavePosition
         \<lparr>slope = 7, intensity = 5, depth = 40, recommendedHeight = Some 8\<rparr> 1 (1/2)
   \<and> seawallPixelHeight None = 30 \<and> seawallPixelHeight (Some 8) = 40"
  using recommendedHeight_noninterference
    [of "\<lparr>slope = 7, intensity = 5, depth = 40, recommendedHeight = None\<rparr>"
        "\<lparr>slope = 7, intensity = 5, depth = 40, recommendedHeight = Some 8\<rparr>" 1 "1/2"]
  by (simp add: seawallPixelHeight_def)


section \<open>Time-to-position mapping\<close>

lemma speedDeep_pos: "0 < d \<Longrightarrow> 0 < speedDeep d"
  by (simp add: speedDeep_def speedFactor_def baseSpeed_def)

lemma deepDist_eq: "1 \<le> sl \<Longrightarrow> deepDist sl = shelfKneeX sl"
  by (simp add: deepDist_def shelfKneeX_eq)

lemma deepDist_pos: "1 \<le> sl \<Longrightarrow> 0 < deepDist sl"
  by (simp add: deepDist_eq shelfKneeX_eq)

lemma slopeDist_pos: "sl \<le> 10 \<Longrightarrow> 0 < slopeDist sl"
  by (simp add: slopeDist_def deepDist_def shelfKneeX_eq shoreX_eq)

lemma timeDeep_pos: "1 \<le> sl \<Longrightarrow> 0 < d \<Longrightarrow> 0 < timeDeep sl d"
  by (simp add: timeDeep_def deepDist_pos speedDeep_pos)

lemma timeSlope_pos: "sl \<le> 10 \<Longrightarrow> 0 < timeSlope sl"
  by (simp add: timeSlope_def slopeDist_pos speedSlopeAvg_def)

lemma timeDeep_speedDeep: "0 < d \<Longrightarrow> timeDeep sl d * speedDeep d = deepDist sl"
  using speedDeep_pos [of d] by (simp add: timeDeep_def)


lemma positionAt_rawX:
  "positionAt sl d t = min shoreX (rawX sl d (t * totalTimeUnits sl d))"
  by (simp add: positionAt_def rawX_def Let_def min_def)

lemma rawX_mono:
  assumes d: "0 < d" and le: "a \<le> b"
  shows "rawX sl d a \<le> rawX sl d b"
proof -
  let ?v = "speedDeep d"
  let ?T = "timeDeep sl d"
  have v: "0 < ?v" using d by (rule speedDeep_pos)
  have D: "?T * ?v = deepDist sl" using d by (rule timeDeep_speedDeep)
  show ?thesis
  proof (cases "b < ?T")
    case True
    with le have "a < ?T" by simp
    moreover have "a * ?v \<le> b * ?v" using le v by (simp add: mult_right_mono)
    ultimately show ?thesis using True by (simp add: rawX_def)
  next
    case bF: False
    show ?thesis
    proof (cases "a < ?T")
      case True
      have "a * ?v \<le> ?T * ?v" using True v by (simp add: mult_right_mono)
      also have "\<dots> = deepDist sl" by (rule D)
      also have "\<dots> \<le> deepDist sl + (b - ?T) * speedSlopeAvg"
        using bF by (simp add: speedSlopeAvg_def)
      finally show ?thesis using True bF by (simp add: rawX_def)
    next
      case False
      with bF le show ?thesis by (simp add: rawX_def speedSlopeAvg_def)
    qed
  qed
qed

text \<open>
  C3: for a slope in \<open>[1, 10]\<close> and a depth in \<open>[10, 80]\<close>, the position at
  time 0 is 0, the position at time 1 is \<open>shoreX\<close>, the position does not
  decrease between two times \<open>t \<le> u\<close> of \<open>[0, 1]\<close>, and it never exceeds
  \<open>shoreX\<close>.
\<close>

theorem positionAt_schedule:
  assumes "1 \<le> sl" and "sl \<le> 10" and "10 \<le> d" and "d \<le> 80"
    and "0 \<le> t" and "t \<le> u" and "u \<le> 1"
  shows "positionAt sl d 0 = 0 \<and> positionAt sl d 1 = shoreX
       \<and> positionAt sl d t \<le> positionAt sl d u \<and> positionAt sl d u \<le> shoreX"
proof -
  have d: "0 < d" using assms by simp
  have TD: "0 < timeDeep sl d" using assms d by (simp add: timeDeep_pos)
  have TS: "0 < timeSlope sl" using assms by (simp add: timeSlope_pos)
  have tot: "0 < totalTimeUnits sl d" using TD TS by (simp add: totalTimeUnits_def)
  have p0: "positionAt sl d 0 = 0"
    using TD by (simp add: positionAt_def shoreX_eq)
  have "timeSlope sl * speedSlopeAvg = slopeDist sl"
    by (simp add: timeSlope_def speedSlopeAvg_def)
  then have "rawX sl d (totalTimeUnits sl d) = shoreX"
    using TS by (simp add: rawX_def totalTimeUnits_def slopeDist_def)
  then have p1: "positionAt sl d 1 = shoreX"
    by (simp add: positionAt_rawX)
  have "t * totalTimeUnits sl d \<le> u * totalTimeUnits sl d"
    using assms tot by (simp add: mult_right_mono)
  then have "rawX sl d (t * totalTimeUnits sl d) \<le> rawX sl d (u * totalTimeUnits sl d)"
    using d by (simp add: rawX_mono)
  then have mono: "positionAt sl d t \<le> positionAt sl d u"
    by (simp add: positionAt_rawX min_def)
  have cap: "positionAt sl d u \<le> shoreX"
    by (simp add: positionAt_rawX)
  show ?thesis using p0 p1 mono cap by simp
qed

lemma speedDeep_40: "speedDeep 40 = 3/5"
  by (simp add: speedDeep_def speedFactor_def baseSpeed_def)

theorem positionAt_schedule_witness:
  "(1::real) \<le> 1 \<and> (1::real) \<le> 10 \<and> (10::real) \<le> 40 \<and> (40::real) \<le> 80
   \<and> (0::real) \<le> 1/100 \<and> (1/100::real) \<le> 1/2 \<and> (1/2::real) \<le> 1
   \<and> positionAt 1 40 0 = 0 \<and> positionAt 1 40 1 = shoreX
   \<and> positionAt 1 40 (1/100) \<le> positionAt 1 40 (1/2) \<and> positionAt 1 40 (1/2) \<le> shoreX"
  using positionAt_schedule [of 1 40 "1/100" "1/2"] by simp

section \<open>Steep-slope damping in deep water\<close>

lemma currentDepthRatio_deep: "x \<le> shelfKneeX sl \<Longrightarrow> currentDepthRatio sl x = 1"
  by (simp add: currentDepthRatio_def)

text \<open>
  C6: for a slope above 6 and a sample time whose position is at or before the
  shelf knee, the wave height is \<open>waveAmp * (1 - (slope - 6) * 0.15)\<close>, strictly
  below the base amplitude \<open>waveAmp = intensity * 3 * visualGain\<close>: the damping
  applies before any shoaling begins.
\<close>

theorem deep_water_damping:
  assumes "6 < slope p" and "1 \<le> intensity p" and "intensity p \<le> 10" and "0 < vg"
    and "fst (calculateWavePosition p vg t) \<le> shelfKneeX (slope p)"
  shows "snd (calculateWavePosition p vg t)
           = waveAmp (intensity p) vg * (1 - (slope p - 6) * 0.15)
       \<and> snd (calculateWavePosition p vg t) < waveAmp (intensity p) vg
       \<and> waveAmp (intensity p) vg = intensity p * 3 * vg"
proof -
  let ?x = "positionAt (slope p) (depth p) t"
  have x: "?x \<le> shelfKneeX (slope p)"
    using assms(5) by (simp add: calculateWavePosition_def Let_def)
  have sf: "shoalingFactor (slope p) ?x = 1 - (slope p - 6) * 0.15"
    using assms(1) x by (simp add: shoalingFactor_def currentDepthRatio_deep)
  have h: "snd (calculateWavePosition p vg t)
             = waveAmp (intensity p) vg * (1 - (slope p - 6) * 0.15)"
    by (simp add: calculateWavePosition_def Let_def heightAt_def sf)
  have amp: "0 < waveAmp (intensity p) vg"
    using assms by (simp add: waveAmp_def)
  have "1 - (slope p - 6) * 0.15 < 1" using assms(1) by simp
  then have "waveAmp (intensity p) vg * (1 - (slope p - 6) * 0.15)
               < waveAmp (intensity p) vg * 1"
    using amp by (simp only: mult_less_cancel_left_pos)
  then show ?thesis using h by (simp add: waveAmp_def)
qed

theorem deep_water_damping_witness:
  "(6::real) < slope \<lparr>slope = 7, intensity = 5, depth = 40, recommendedHeight = None\<rparr>
   \<and> fst (calculateWavePosition \<lparr>slope = 7, intensity = 5, depth = 40, recommendedHeight = None\<rparr> 1 0)
        \<le> shelfKneeX 7
   \<and> snd (calculateWavePosition \<lparr>slope = 7, intensity = 5, depth = 40, recommendedHeight = None\<rparr> 1 0)
        = 15 * (85 / 100)
   \<and> snd (calculateWavePosition \<lparr>slope = 7, intensity = 5, depth = 40, recommendedHeight = None\<rparr> 1 0)
        < 15"
proof -
  let ?p = "\<lparr>slope = 7, intensity = 5, depth = 40, recommendedHeight = None\<rparr>"
  have x: "fst (calculateWavePosition ?p 1 0) = 0"
    by (simp add: calculateWavePosition_def positionAt_def timeDeep_def deepDist_def
      shelfKneeX_eq shoreX_eq speedDeep_40 Let_def)
  then have le: "fst (calculateWavePosition ?p 1 0) \<le> shelfKneeX (slope ?p)"
    by (simp add: shelfKneeX_eq)
  show ?thesis
    using deep_water_damping [of ?p 1 0] le x
    by (simp add: waveAmp_def shelfKneeX_eq)
qed

section \<open>Gentle against steep amplification\<close>

lemma currentDepthRatio_ge: "0.1 \<le> currentDepthRatio sl x"
  by (simp add: currentDepthRatio_def Let_def)

lemma currentDepthRatio_le: "currentDepthRatio sl x \<le> 1"
  by (simp add: currentDepthRatio_def Let_def)

lemma green_ge_one: "1 \<le> (1 / currentDepthRatio sl x) powr 0.25"
proof -
  have "0 < currentDepthRatio sl x"
    using currentDepthRatio_ge [of sl x] by simp
  then have "1 \<le> 1 / currentDepthRatio sl x"
    using currentDepthRatio_le [of sl x] by (simp add: field_simps)
  then show ?thesis
    by (rule ge_one_powr_ge_zero) simp
qed

lemma fourth_root_ten: "(10::real) powr 0.25 < 20 / 11"
proof -
  have q: "(0::real) < 20 / 11" by simp
  have "(10::real) < (20 / 11) ^ 4"
    by (simp add: power4_eq_xxxx)
  then have "(10::real) powr 0.25 < ((20 / 11) ^ 4) powr 0.25"
    by (intro powr_less_mono2) simp_all
  also have "((20 / 11 :: real) ^ 4) powr 0.25 = ((20 / 11) powr (real 4)) powr 0.25"
    by (simp only: powr_realpow [of "20 / 11" 4, OF q])
  also have "\<dots> = (20 / 11) powr (real 4 * 0.25)"
    by (rule powr_powr)
  also have "\<dots> = 20 / 11"
    by simp
  finally show ?thesis .
qed

lemma green_le: "(1 / currentDepthRatio sl x) powr 0.25 \<le> 10 powr 0.25"
proof -
  have "0 < currentDepthRatio sl x"
    using currentDepthRatio_ge [of sl x] by simp
  then have "1 / currentDepthRatio sl x \<le> 10" and "0 \<le> 1 / currentDepthRatio sl x"
    using currentDepthRatio_ge [of sl x] by (simp_all add: field_simps)
  then show ?thesis
    by (intro powr_mono2) simp_all
qed

lemma shoalingFactor_gentle: "sl \<le> 6 \<Longrightarrow> 1 \<le> shoalingFactor sl x"
  using green_ge_one [of sl x] by (simp add: shoalingFactor_def Let_def)

lemma shoalingFactor_nine: "shoalingFactor 9 x < 1"
proof -
  have "shoalingFactor 9 x = (1 / currentDepthRatio 9 x) powr 0.25 * (11 / 20)"
    by (simp add: shoalingFactor_def Let_def)
  also have "\<dots> \<le> 10 powr 0.25 * (11 / 20)"
    using green_le [of 9 x] by simp
  also have "\<dots> < 20 / 11 * (11 / 20)"
    using fourth_root_ten by simp
  finally show ?thesis by simp
qed

text \<open>
  C2: for an intensity in \<open>[1, 10]\<close>, a positive visual gain and an \<open>x\<close> past
  the shelf knees of both profiles, up to the shore, the wave height at slope 2
  is strictly greater than the wave height at slope 9, each with its own knee
  and tension and with the steep-slope factor applied at slope 9.
\<close>

theorem gentle_higher_than_steep:
  assumes "1 \<le> i" and "i \<le> 10" and "0 < vg"
    and "shelfKneeX 2 < x" and "shelfKneeX 9 < x" and "x \<le> shoreX"
  shows "heightAt 9 i vg x < heightAt 2 i vg x"
proof -
  have amp: "0 < waveAmp i vg"
    using assms by (simp add: waveAmp_def)
  have "shoalingFactor 9 x < shoalingFactor 2 x"
    using shoalingFactor_nine [of x] shoalingFactor_gentle [of 2 x] by simp
  then show ?thesis
    using amp by (simp add: heightAt_def)
qed

theorem gentle_higher_than_steep_witness:
  "(1::real) \<le> 5 \<and> (5::real) \<le> 10 \<and> (0::real) < 1
   \<and> shelfKneeX 2 < 500 \<and> shelfKneeX 9 < 500 \<and> 500 \<le> shoreX
   \<and> heightAt 9 5 1 500 < heightAt 2 5 1 500"
  using gentle_higher_than_steep [of 5 1 500]
  by (simp add: shelfKneeX_eq shoreX_eq)

section \<open>The seabed profile\<close>

lemma segmentAt_zero: "drawn c \<Longrightarrow> segmentAt st p c 0 = p"
  by (cases c) simp_all

lemma segmentAt_cont: "continuous_on A (segmentAt st p c)"
  by (cases c) (auto intro!: continuous_intros)

lemma pathAt_zero: "list_all drawn cs \<Longrightarrow> pathAt st p cs 0 = p"
  by (cases cs; cases "hd cs") (simp_all)

lemma pathAt_step:
  "drawn c \<Longrightarrow> pathAt st p (c # cs) =
     (\<lambda>u. if u \<le> 1 then segmentAt st p c u else pathAt st (segmentAt st p c 1) cs (u - 1))"
  by (cases c) (simp_all add: fun_eq_iff)

lemma pathAt_cont:
  "list_all drawn cs \<Longrightarrow> continuous_on {0..} (pathAt st p cs)"
proof (induction cs arbitrary: p)
  case Nil
  show ?case by (simp add: fun_eq_iff[symmetric] )
next
  case (Cons c cs)
  then have c: "drawn c" and cs: "list_all drawn cs" by simp_all
  let ?q = "segmentAt st p c 1"
  have tail: "continuous_on {1..} (\<lambda>u. pathAt st ?q cs (u - 1))"
  proof -
    have "continuous_on {1..} (pathAt st ?q cs \<circ> (\<lambda>u. u - 1))"
      by (rule continuous_on_compose)
         (auto intro!: continuous_intros continuous_on_subset [OF Cons.IH [OF cs]])
    then show ?thesis by (simp add: comp_def)
  qed
  have "continuous_on ({0..1} \<union> {1..})
          (\<lambda>u. if u \<le> 1 then segmentAt st p c u else pathAt st ?q cs (u - 1))"
    by (rule continuous_on_If)
       (auto intro: segmentAt_cont tail simp: pathAt_zero [OF cs] not_le)
  moreover have "{0..1} \<union> {1..} = {0::real..}" by auto
  ultimately show ?case by (simp add: pathAt_step [OF c])
qed


lemma depthScale_pos: "0 < depthScale d"
proof -
  have "10 \<le> max 10 (min 80 d)" by simp
  then have "0 \<le> (max 10 (min 80 d) - 10) * 65 / 70" by simp
  then show ?thesis unfolding depthScale_eq by linarith
qed

lemma seabedAt_flat:
  "u \<le> 1 \<Longrightarrow> seabedAt sl d u = (u * shelfKneeX sl, deepDepthY d)"
  by (simp add: seabedAt_def seabedPath_def algebra_simps)

lemma seabedAt_curve:
  assumes "1 \<le> u" and "u \<le> 2"
  shows "seabedAt sl d u =
           (shelfKneeX sl + run sl * bend (tension sl) (u - 1),
            deepDepthY d - (u - 1)\<^sup>2 * depthScale d)"
proof (cases "u = 1")
  case True
  then show ?thesis by (simp add: seabedAt_flat bend_def)
next
  case False
  with assms have "\<not> u \<le> 1" and "u - 1 \<le> 1" by simp_all
  then show ?thesis
    by (simp add: seabedAt_def seabedPath_def cpX_def cpY_def shelfKneeX_def
        shoreDepthY_def deepDepthY_def bend_def power2_eq_square algebra_simps)
qed

lemma bend_mono:
  assumes T: "0 \<le> T" "T \<le> 1" and s: "0 \<le> a" "a \<le> b" "b \<le> 1"
  shows "bend T a \<le> bend T b"
proof -
  have "bend T b - bend T a = (b - a) * (T * (2 - (a + b)) + (a + b) * (1 - T))"
    by (simp add: bend_def power2_eq_square algebra_simps)
  moreover have "0 \<le> (b - a) * (T * (2 - (a + b)) + (a + b) * (1 - T))"
    using T s by (intro mult_nonneg_nonneg add_nonneg_nonneg) simp_all
  ultimately show ?thesis by simp
qed

lemma tension_range: "1 \<le> sl \<Longrightarrow> sl \<le> 10 \<Longrightarrow> 0 \<le> tension sl \<and> tension sl \<le> 1"
  by (simp add: tension_def field_simps)

lemma run_pos: "sl \<le> 10 \<Longrightarrow> 0 < run sl"
  by (simp add: run_eq)

lemma seabed_mono_flat:
  assumes "1 \<le> sl" and "u \<le> v" and "v \<le> 1"
  shows "fst (seabedAt sl d u) \<le> fst (seabedAt sl d v)
       \<and> snd (seabedAt sl d v) \<le> snd (seabedAt sl d u)"
proof -
  have "0 \<le> shelfKneeX sl" using assms by (simp add: shelfKneeX_eq)
  then have "u * shelfKneeX sl \<le> v * shelfKneeX sl"
    using assms by (simp add: mult_right_mono)
  then show ?thesis using assms by (simp add: seabedAt_flat)
qed

lemma seabed_mono_curve:
  assumes "1 \<le> sl" and "sl \<le> 10" and "1 \<le> u" and "u \<le> v" and "v \<le> 2"
  shows "fst (seabedAt sl d u) \<le> fst (seabedAt sl d v)
       \<and> snd (seabedAt sl d v) \<le> snd (seabedAt sl d u)"
proof -
  have "bend (tension sl) (u - 1) \<le> bend (tension sl) (v - 1)"
    using assms tension_range [of sl] by (intro bend_mono) simp_all
  then have x: "run sl * bend (tension sl) (u - 1) \<le> run sl * bend (tension sl) (v - 1)"
    using run_pos [of sl] assms by (simp add: mult_left_mono)
  have "(u - 1)\<^sup>2 \<le> (v - 1)\<^sup>2"
    using assms by (intro power_mono) simp_all
  then have y: "(u - 1)\<^sup>2 * depthScale d \<le> (v - 1)\<^sup>2 * depthScale d"
    using depthScale_pos [of d] by (simp add: mult_right_mono)
  show ?thesis using x y assms by (simp add: seabedAt_curve)
qed

text \<open>
  C4: for a slope in \<open>[1, 10]\<close> and a depth in \<open>[10, 80]\<close>, the seabed profile
  is continuous, in particular where the flat floor meets the curve at the shelf
  knee (\<open>u = 1\<close>) and where the curve meets the land at the shore (\<open>u = 2\<close>),
  and from the deep end to the shore it is monotonic: \<open>x\<close> never decreases and
  the pixel value \<open>y\<close> never increases, from \<open>deepDepthY\<close> down to
  \<open>shoreDepthY\<close>.
\<close>

theorem seabed_profile_continuous_monotone:
  assumes "1 \<le> sl" and "sl \<le> 10" and "10 \<le> d" and "d \<le> 80"
    and "0 \<le> u" and "u \<le> v" and "v \<le> 2"
  shows "continuous_on {0..} (seabedAt sl d)
       \<and> isCont (seabedAt sl d) 1 \<and> isCont (seabedAt sl d) 2
       \<and> seabedAt sl d 0 = (0, deepDepthY d)
       \<and> seabedAt sl d 1 = (shelfKneeX sl, deepDepthY d)
       \<and> seabedAt sl d 2 = (shoreX, shoreDepthY)
       \<and> fst (seabedAt sl d u) \<le> fst (seabedAt sl d v)
       \<and> snd (seabedAt sl d v) \<le> snd (seabedAt sl d u)"
proof -
  have eq: "seabedAt sl d = pathAt (0, deepDepthY d) (0, deepDepthY d) (tl (seabedPath sl d))"
    by (simp add: seabedAt_def seabedPath_def fun_eq_iff)
  have cont: "continuous_on {0..} (seabedAt sl d)"
    unfolding eq by (rule pathAt_cont) (simp add: seabedPath_def)
  have "continuous_on {0<..} (seabedAt sl d)"
    by (rule continuous_on_subset [OF cont]) auto
  then have inner: "\<forall>x\<in>{0<..}. isCont (seabedAt sl d) x"
    by (simp add: continuous_on_eq_continuous_at)
  have c1: "isCont (seabedAt sl d) 1"
    using inner by simp
  have c2: "isCont (seabedAt sl d) 2"
    using inner by simp
  have p0: "seabedAt sl d 0 = (0, deepDepthY d)"
    by (simp add: seabedAt_flat)
  have p1: "seabedAt sl d 1 = (shelfKneeX sl, deepDepthY d)"
    by (simp add: seabedAt_flat)
  have p2: "seabedAt sl d 2 = (shoreX, shoreDepthY)"
    by (simp add: seabedAt_curve bend_def shelfKneeX_def deepDepthY_def shoreDepthY_def)
  have mono: "fst (seabedAt sl d u) \<le> fst (seabedAt sl d v)
       \<and> snd (seabedAt sl d v) \<le> snd (seabedAt sl d u)"
  proof (cases "v \<le> 1")
    case True
    with assms show ?thesis by (intro seabed_mono_flat) simp_all
  next
    case v: False
    show ?thesis
    proof (cases "1 \<le> u")
      case True
      with assms show ?thesis by (intro seabed_mono_curve) simp_all
    next
      case False
      then have a: "fst (seabedAt sl d u) \<le> fst (seabedAt sl d 1)
                  \<and> snd (seabedAt sl d 1) \<le> snd (seabedAt sl d u)"
        using assms by (intro seabed_mono_flat) simp_all
      have b: "fst (seabedAt sl d 1) \<le> fst (seabedAt sl d v)
                  \<and> snd (seabedAt sl d v) \<le> snd (seabedAt sl d 1)"
        using assms v by (intro seabed_mono_curve) simp_all
      from a b show ?thesis by simp
    qed
  qed
  show ?thesis using cont c1 c2 p0 p1 p2 mono by simp
qed

theorem seabed_profile_continuous_monotone_witness:
  "(1::real) \<le> 5 \<and> (5::real) \<le> 10 \<and> (10::real) \<le> 40 \<and> (40::real) \<le> 80
   \<and> (0::real) \<le> 1/2 \<and> (1/2::real) \<le> 3/2 \<and> (3/2::real) \<le> 2
   \<and> continuous_on {0..} (seabedAt 5 40)
   \<and> isCont (seabedAt 5 40) 1 \<and> isCont (seabedAt 5 40) 2
   \<and> seabedAt 5 40 1 = (shelfKneeX 5, deepDepthY 40)
   \<and> seabedAt 5 40 2 = (shoreX, shoreDepthY)
   \<and> fst (seabedAt 5 40 (1/2)) \<le> fst (seabedAt 5 40 (3/2))
   \<and> snd (seabedAt 5 40 (3/2)) \<le> snd (seabedAt 5 40 (1/2))"
  using seabed_profile_continuous_monotone [of 5 40 "1/2" "3/2"] by simp

section \<open>One generation of timers\<close>




















end
